theory Spec2Isabelle
  imports Complex_Main
begin

section \<open>Data model of the coverage optimiser (\<open>coverage_optimizer.py\<close>)\<close>

text \<open>
  Python floats are modelled as exact reals: \<open>+\<close>, \<open>*\<close>, \<open>/\<close> and the comparisons are the
  mathematical ones, and a division by zero is an explicit \<open>ZeroDivisionError\<close>.
  Python exceptions are values of the type \<open>error\<close>; a function that can raise returns
  \<open>error + 'a\<close> with \<open>Inl\<close> for the raise. A ValueError carries the fixed part of its
  message, without the values an f-string appends.
\<close>

datatype error = ValueError string | ZeroDivisionError | IndexError | KeyError

type_synonym point = "real \<times> real"

text \<open>
  A shapely geometry (Polygon or MultiPolygon) is used by the code through three members only:
  its \<open>bounds\<close> tuple \<open>(minx, miny, maxx, maxy)\<close>, the closed containment test \<open>covers\<close> of the
  prepared geometry, and its truth value (\<open>not is_empty\<close>). The library is not part of the
  repository, so a geometry is the record of these three.
\<close>

record geometry =
  bounds :: "real \<times> real \<times> real \<times> real"
  covers :: "point \<Rightarrow> bool"
  is_empty :: bool

record CoverageCandidate =
  index :: nat
  footprint :: geometry
  cloud_cover :: real
  date :: string
  quality_score :: real
  covered_points :: "nat set"

text \<open>\<open>solver_time_seconds\<close> is wall-clock time and is left out of the result record.\<close>

record CoverageResult =
  selected_indices :: "nat list"
  coverage_fraction :: real
  uncovered_area_m2 :: real
  num_candidates :: nat
  num_selected :: nat
  solver_type :: string
  optimal :: "bool option"

section \<open>Greedy solver (\<open>greedy_set_cover\<close>)\<close>

text \<open>Python's \<open>int(x)\<close> on a float truncates towards zero.\<close>

definition py_int :: "real \<Rightarrow> int" where
  "py_int r = (if 0 \<le> r then \<lfloor>r\<rfloor> else \<lceil>r\<rceil>)"

text \<open>The three variables the inner \<open>for\<close> loop updates.\<close>

record best =
  best_candidate_idx :: "nat option"
  best_gain_per_cost :: real
  best_gain :: nat

text \<open>The variables of the \<open>while\<close> loop; \<open>selected\<close> is the local list \<open>selected_indices\<close>.\<close>

record greedy_state =
  uncovered_points :: "nat set"
  selected :: "nat list"
  iteration :: nat

text \<open>
  The inner loop \<open>for j, candidate in enumerate(candidates)\<close> (lines 184-206), started at
  position \<open>j\<close>. \<open>coverage_sets[j]\<close> raises IndexError when the list is too short.
\<close>

fun greedy_scan ::
  "nat set list \<Rightarrow> real \<Rightarrow> real \<Rightarrow> nat list \<Rightarrow> nat set \<Rightarrow> nat \<Rightarrow> CoverageCandidate list \<Rightarrow> best
    \<Rightarrow> error + best" where
  "greedy_scan coverage_sets cloud_weight quality_weight sel unc j [] b = Inr b"
| "greedy_scan coverage_sets cloud_weight quality_weight sel unc j (candidate # rest) b =
    (if j \<in> set sel then
       greedy_scan coverage_sets cloud_weight quality_weight sel unc (Suc j) rest b
     else if length coverage_sets \<le> j then Inl IndexError
     else
       let marginal_gain = card (coverage_sets ! j \<inter> unc) in
       if marginal_gain = 0 then
         greedy_scan coverage_sets cloud_weight quality_weight sel unc (Suc j) rest b
       else
         let cloud_penalty = cloud_cover candidate / 100;
             quality_penalty = 1 - quality_score candidate;
             cost = max (cloud_weight * cloud_penalty + quality_weight * quality_penalty) (1 / 100);
             gain_per_cost = real marginal_gain / cost
         in if gain_per_cost > best_gain_per_cost b then
              greedy_scan coverage_sets cloud_weight quality_weight sel unc (Suc j) rest
                \<lparr>best_candidate_idx = Some j, best_gain_per_cost = gain_per_cost,
                 best_gain = marginal_gain\<rparr>
            else
              greedy_scan coverage_sets cloud_weight quality_weight sel unc (Suc j) rest b)"

text \<open>
  One pass through the body of the \<open>while\<close> loop (lines 179-220). \<open>Inr None\<close> is the
  \<open>break\<close>; \<open>Inr (Some st')\<close> is the state after a selection. Both log messages divide by
  \<open>total_points\<close>, and an f-string is evaluated whatever the log level.
\<close>

definition greedy_iteration ::
  "CoverageCandidate list \<Rightarrow> nat set list \<Rightarrow> real \<Rightarrow> real \<Rightarrow> nat \<Rightarrow> greedy_state
    \<Rightarrow> error + greedy_state option" where
  "greedy_iteration candidates coverage_sets cloud_weight quality_weight total_points st =
    (case greedy_scan coverage_sets cloud_weight quality_weight (selected st) (uncovered_points st)
            0 candidates \<lparr>best_candidate_idx = None, best_gain_per_cost = 0, best_gain = 0\<rparr> of
       Inl e \<Rightarrow> Inl e
     | Inr b \<Rightarrow>
         (case best_candidate_idx b of
            None \<Rightarrow> if total_points = 0 then Inl ZeroDivisionError else Inr None
          | Some best_idx \<Rightarrow>
              if total_points = 0 then Inl ZeroDivisionError
              else Inr (Some \<lparr>uncovered_points = uncovered_points st - coverage_sets ! best_idx,
                              selected = selected st @ [best_idx],
                              iteration = iteration st + 1\<rparr>)))"

text \<open>The \<open>while\<close> loop (line 178), with \<open>target_points\<close> a Python integer.\<close>

function greedy_loop ::
  "CoverageCandidate list \<Rightarrow> nat set list \<Rightarrow> real \<Rightarrow> real \<Rightarrow> nat \<Rightarrow> int \<Rightarrow> greedy_state
    \<Rightarrow> error + greedy_state" where
  "greedy_loop candidates coverage_sets cloud_weight quality_weight total_points target_points st =
    (if int (card (uncovered_points st)) > int total_points - target_points then
       (case greedy_iteration candidates coverage_sets cloud_weight quality_weight total_points st of
          Inl e \<Rightarrow> Inl e
        | Inr None \<Rightarrow> Inr st
        | Inr (Some st') \<Rightarrow>
            greedy_loop candidates coverage_sets cloud_weight quality_weight total_points
              target_points st')
     else Inr st)"
  by pat_completeness auto

text \<open>
  What the inner loop returns as best index is a position of \<open>candidates\<close> that is not yet
  selected, inside \<open>coverage_sets\<close>, and has a positive marginal gain.
\<close>

lemma greedy_scan_best:
  assumes "greedy_scan cs cw qw sel unc j cands b = Inr b'"
    and "best_candidate_idx b' = Some k"
    and "\<And>k. best_candidate_idx b = Some k \<Longrightarrow> P k"
    and "\<And>k. j \<le> k \<Longrightarrow> k < j + length cands \<Longrightarrow> k \<notin> set sel \<Longrightarrow> k < length cs
            \<Longrightarrow> 0 < card (cs ! k \<inter> unc) \<Longrightarrow> P k"
  shows "P k"
  using assms
proof (induction cands arbitrary: j b)
  case Nil
  then show ?case by simp
next
  case (Cons c cands)
  show ?case
  proof (cases "j \<in> set sel")
    case True
    with Cons.prems(1) have "greedy_scan cs cw qw sel unc (Suc j) cands b = Inr b'" by simp
    then show ?thesis
      using Cons.prems(2,3,4) by (rule Cons.IH) auto
  next
    case False
    note notsel = this
    show ?thesis
    proof (cases "length cs \<le> j")
      case True
      with notsel Cons.prems(1) show ?thesis by simp
    next
      case False
      note inrange = this
      let ?g = "card (cs ! j \<inter> unc)"
      show ?thesis
      proof (cases "?g = 0")
        case True
        with notsel inrange Cons.prems(1)
        have "greedy_scan cs cw qw sel unc (Suc j) cands b = Inr b'" by simp
        then show ?thesis
          using Cons.prems(2,3,4) by (rule Cons.IH) auto
      next
        case False
        let ?gpc = "real ?g / max (cw * (cloud_cover c / 100) + qw * (1 - quality_score c)) (1 / 100)"
        show ?thesis
        proof (cases "?gpc > best_gain_per_cost b")
          case True
          with notsel inrange False Cons.prems(1)
          have "greedy_scan cs cw qw sel unc (Suc j) cands
                  \<lparr>best_candidate_idx = Some j, best_gain_per_cost = ?gpc, best_gain = ?g\<rparr> = Inr b'"
            by (simp add: Let_def)
          moreover have "P j"
            using notsel inrange False by (intro Cons.prems(4)) auto
          ultimately show ?thesis
            using Cons.prems(2,4) by (intro Cons.IH [of "Suc j" _]) auto
        next
          case ngt: False
          with notsel inrange False Cons.prems(1)
          have "greedy_scan cs cw qw sel unc (Suc j) cands b = Inr b'"
            by (simp add: Let_def)
          then show ?thesis
            using Cons.prems(2,3,4) by (rule Cons.IH) auto
        qed
      qed
    qed
  qed
qed

lemma greedy_iteration_Some:
  assumes "greedy_iteration cands cs cw qw tot st = Inr (Some st')"
  shows "\<exists>k. k < length cands \<and> k \<notin> set (selected st) \<and> k < length cs
            \<and> 0 < card (cs ! k \<inter> uncovered_points st)
            \<and> st' = \<lparr>uncovered_points = uncovered_points st - cs ! k,
                      selected = selected st @ [k], iteration = iteration st + 1\<rparr>"
proof -
  from assms obtain b k where
    scan: "greedy_scan cs cw qw (selected st) (uncovered_points st) 0 cands
             \<lparr>best_candidate_idx = None, best_gain_per_cost = 0, best_gain = 0\<rparr> = Inr b"
    and k: "best_candidate_idx b = Some k"
    and st': "st' = \<lparr>uncovered_points = uncovered_points st - cs ! k,
                      selected = selected st @ [k], iteration = iteration st + 1\<rparr>"
    by (auto simp: greedy_iteration_def split: sum.splits option.splits if_splits)
  have "k < length cands \<and> k \<notin> set (selected st) \<and> k < length cs
          \<and> 0 < card (cs ! k \<inter> uncovered_points st)"
    by (rule greedy_scan_best [OF scan k]) auto
  with st' show ?thesis by blast
qed

termination greedy_loop
proof (relation "measure (\<lambda>(cands, cs, cw, qw, tot, target, st).
          length cands - card (set (selected st) \<inter> {..<length cands}))")
  show "wf (measure (\<lambda>(cands, cs, cw, qw, tot, target, st).
          length cands - card (set (selected st) \<inter> {..<length cands})))"
    by simp
next
  fix cands cs cw qw tot target st x2 x2a
  assume "greedy_iteration cands cs cw qw tot st = Inr x2" and "x2 = Some x2a"
  then obtain k where k: "k < length cands" "k \<notin> set (selected st)"
    and sel: "selected x2a = selected st @ [k]"
    using greedy_iteration_Some [of cands cs cw qw tot st x2a] by auto
  let ?S = "set (selected st) \<inter> {..<length cands}"
  have eq: "set (selected x2a) \<inter> {..<length cands} = insert k ?S"
    using k sel by auto
  have fin: "finite ?S" by simp
  have "k \<notin> ?S" using k by simp
  then have c: "card (insert k ?S) = Suc (card ?S)"
    using fin by simp
  have "card (insert k ?S) \<le> card {..<length cands}"
    by (rule card_mono) (use k in auto)
  then have "Suc (card ?S) \<le> length cands" using c by simp
  then show "((cands, cs, cw, qw, tot, target, x2a), (cands, cs, cw, qw, tot, target, st))
        \<in> measure (\<lambda>(cands, cs, cw, qw, tot, target, st).
            length cands - card (set (selected st) \<inter> {..<length cands}))"
    using eq c by simp
qed

declare greedy_loop.simps [simp del]

text \<open>
  \<open>greedy_set_cover\<close> (lines 172-240). The final statistics divide by \<open>total_points\<close>, so an
  instance without sample points raises ZeroDivisionError.
\<close>

definition greedy_set_cover ::
  "CoverageCandidate list \<Rightarrow> nat set list \<Rightarrow> point list \<Rightarrow> real \<Rightarrow> real \<Rightarrow> real \<Rightarrow> real
    \<Rightarrow> error + CoverageResult" where
  "greedy_set_cover candidates coverage_sets sample_points aoi_area_m2 min_coverage_fraction
      cloud_weight quality_weight =
    (let total_points = length sample_points;
         target_points = py_int (real total_points * min_coverage_fraction)
     in case greedy_loop candidates coverage_sets cloud_weight quality_weight total_points
               target_points \<lparr>uncovered_points = {0..<total_points}, selected = [], iteration = 0\<rparr> of
          Inl e \<Rightarrow> Inl e
        | Inr st \<Rightarrow>
            if total_points = 0 then Inl ZeroDivisionError
            else Inr \<lparr>selected_indices = map (\<lambda>i. index (candidates ! i)) (selected st),
                      coverage_fraction = 1 - real (card (uncovered_points st)) / real total_points,
                      uncovered_area_m2 =
                        (real (card (uncovered_points st)) / real total_points) * aoi_area_m2,
                      num_candidates = length candidates,
                      num_selected = length (selected st),
                      solver_type = ''greedy'',
                      optimal = Some False\<rparr>)"

section \<open>Grid sampler and coverage matrix\<close>

text \<open>
  \<open>numpy.arange(start, stop, step)\<close> on floats: \<open>ceil((stop - start) / step)\<close> values
  \<open>start + i * step\<close>, none when that length is not positive; a zero step is an error.
\<close>

definition arange :: "real \<Rightarrow> real \<Rightarrow> real \<Rightarrow> error + real list" where
  "arange start stop step =
    (if step = 0 then Inl (ValueError ''arange: cannot compute length'')
     else Inr (map (\<lambda>i. start + real i * step) [0..<nat \<lceil>(stop - start) / step\<rceil>]))"

text \<open>\<open>sample_points_in_polygon\<close> (lines 77-94); the argument \<open>crs\<close> is never read.\<close>

definition sample_points_in_polygon :: "geometry \<Rightarrow> real \<Rightarrow> error + point list" where
  "sample_points_in_polygon aoi_polygon grid_spacing_meters =
    (case bounds aoi_polygon of (minx, miny, maxx, maxy) \<Rightarrow>
       (case arange minx maxx grid_spacing_meters of
          Inl e \<Rightarrow> Inl e
        | Inr x_coords \<Rightarrow>
            (case arange miny maxy grid_spacing_meters of
               Inl e \<Rightarrow> Inl e
             | Inr y_coords \<Rightarrow>
                 Inr (concat (map (\<lambda>x. filter (covers aoi_polygon) (map (\<lambda>y. (x, y)) y_coords))
                        x_coords)))))"

text \<open>
  The inner loop of \<open>build_coverage_matrix\<close> (lines 125-129) for one footprint, over
  \<open>enumerate(sample_points)\<close> from position \<open>i\<close>: the bounding-box test, then \<open>covers\<close>.
\<close>

fun covered_by :: "geometry \<Rightarrow> nat \<Rightarrow> point list \<Rightarrow> nat set" where
  "covered_by fp i [] = {}"
| "covered_by fp i (pt # rest) =
    (case bounds fp of (minx, miny, maxx, maxy) \<Rightarrow>
       if minx \<le> fst pt \<and> fst pt \<le> maxx \<and> miny \<le> snd pt \<and> snd pt \<le> maxy \<and> covers fp pt
       then insert i (covered_by fp (Suc i) rest)
       else covered_by fp (Suc i) rest)"

definition build_coverage_matrix :: "point list \<Rightarrow> geometry list \<Rightarrow> nat set list" where
  "build_coverage_matrix sample_points candidate_footprints =
     map (\<lambda>fp. covered_by fp 0 sample_points) candidate_footprints"

section \<open>MILP solver driver (\<open>optimal_set_cover_milp\<close>)\<close>

text \<open>
  The OR-Tools back-end is outside the repository. What the code reads from it is whether the
  import succeeded (\<open>ORTOOLS_AVAILABLE\<close>), whether \<open>CreateSolver\<close> returned a solver, the status
  of \<open>Solve()\<close> and the \<open>solution_value()\<close> of each \<open>x[j]\<close>: these four are the back-end of a
  run, given as a parameter, so that every answer of a solver is covered. The program handed to
  the solver (variables, constraints, objective) and the time limit only influence that
  answer; \<open>time_limit_seconds\<close> and \<open>solver_timeout\<close> are therefore no arguments of the model.
\<close>

datatype solver_status =
  OPTIMAL | FEASIBLE | INFEASIBLE | UNBOUNDED | ABNORMAL | MODEL_INVALID | NOT_SOLVED

record milp_backend =
  ortools_available :: bool
  create_solver_ok :: bool
  solve_status :: solver_status
  solution_value :: "nat \<Rightarrow> real"

text \<open>
  Building the constraint of point \<open>i\<close> reads \<open>x[j]\<close> for every \<open>j\<close> whose coverage set holds
  \<open>i\<close>; \<open>x\<close> has the keys \<open>range(len(candidates))\<close>, so a coverage set at a position from
  \<open>len(candidates)\<close> on that holds a point index raises KeyError (lines 306-313).
\<close>

definition constraint_key_error :: "nat \<Rightarrow> nat set list \<Rightarrow> nat \<Rightarrow> bool" where
  "constraint_key_error n_candidates coverage_sets total_points =
     (\<exists>cov_set \<in> set (drop n_candidates coverage_sets). \<exists>i \<in> {0..<total_points}. i \<in> cov_set)"

text \<open>Solution extraction (lines 353-359), over \<open>range(len(candidates))\<close> from position \<open>j\<close>.\<close>

fun milp_extract ::
  "(nat \<Rightarrow> real) \<Rightarrow> nat set list \<Rightarrow> nat \<Rightarrow> CoverageCandidate list \<Rightarrow> nat list \<times> nat set
    \<Rightarrow> error + nat list \<times> nat set" where
  "milp_extract x coverage_sets j [] acc = Inr acc"
| "milp_extract x coverage_sets j (candidate # rest) acc =
    (if x j > 1 / 2 then
       if length coverage_sets \<le> j then Inl IndexError
       else milp_extract x coverage_sets (Suc j) rest
              (fst acc @ [index candidate], snd acc \<union> coverage_sets ! j)
     else milp_extract x coverage_sets (Suc j) rest acc)"

definition optimal_set_cover_milp ::
  "milp_backend \<Rightarrow> CoverageCandidate list \<Rightarrow> nat set list \<Rightarrow> point list \<Rightarrow> real \<Rightarrow> real \<Rightarrow> real
    \<Rightarrow> real \<Rightarrow> error + CoverageResult option" where
  "optimal_set_cover_milp backend candidates coverage_sets sample_points aoi_area_m2
      min_coverage_fraction cloud_weight quality_weight =
    (if \<not> ortools_available backend then Inr None
     else if \<not> create_solver_ok backend then Inr None
     else
       let total_points = length sample_points in
       if constraint_key_error (length candidates) coverage_sets total_points then Inl KeyError
       else
         (case (case solve_status backend of
                  OPTIMAL \<Rightarrow> Some True | FEASIBLE \<Rightarrow> Some False | _ \<Rightarrow> None) of
            None \<Rightarrow> Inr None
          | Some opt \<Rightarrow>
              (case milp_extract (solution_value backend) coverage_sets 0 candidates ([], {}) of
                 Inl e \<Rightarrow> Inl e
               | Inr (sel, covered_points_set) \<Rightarrow>
                   if total_points = 0 then Inl ZeroDivisionError
                   else
                     let cf = real (card covered_points_set) / real total_points in
                     Inr (Some \<lparr>selected_indices = sel,
                                coverage_fraction = cf,
                                uncovered_area_m2 = (1 - cf) * aoi_area_m2,
                                num_candidates = length candidates,
                                num_selected = length sel,
                                solver_type = ''milp'',
                                optimal = Some opt\<rparr>))))"

section \<open>Dispatcher of the coverage strategies (\<open>select_covering_products\<close>)\<close>

text \<open>
  A processed product is a dictionary; each key the code reads is a field, \<open>None\<close> when the key
  is absent, a number otherwise. The value under \<open>footprint_geom_proj\<close> is absent, a Polygon or
  MultiPolygon, or some other object with the truth value given. The value under
  \<open>sensing_date\<close> is absent or empty, a string \<open>datetime.fromisoformat\<close> rejects, or a string
  it parses to the date given.
\<close>

record pydate =
  year :: int
  month :: int
  day :: int

datatype footprint_field = NoFootprint | OtherObject bool | Footprint geometry

datatype sensing_date_field = NoDate | BadDate | SensingDate pydate

record product =
  p_name :: string
  p_cloud_cover_float :: "real option"
  p_cloud_cover :: "real option"
  p_aoi_coverage_pct :: "real option"
  p_date_diff_days :: "real option"
  p_sensing_date :: sensing_date_field
  p_footprint_geom_proj :: footprint_field
  p_date :: "string option"
  p_quality_score :: "real option"

text \<open>The argument \<open>aoi_geom\<close>: a Polygon, a MultiPolygon, or an object of another type.\<close>

datatype aoi_geom = Polygon geometry | MultiPolygon geometry | NotAPolygon

text \<open>The loop over \<open>enumerate(processed_products)\<close> (lines 437-464) from position \<open>i\<close>.\<close>

fun extract_candidates :: "nat \<Rightarrow> product list \<Rightarrow> CoverageCandidate list" where
  "extract_candidates i [] = []"
| "extract_candidates i (product # rest) =
    (case p_footprint_geom_proj product of
       NoFootprint \<Rightarrow> extract_candidates (Suc i) rest
     | OtherObject _ \<Rightarrow> extract_candidates (Suc i) rest
     | Footprint fp \<Rightarrow>
         \<lparr>index = i,
          footprint = fp,
          cloud_cover =
            max 0 (min 100 (case p_cloud_cover_float product of
                              Some c \<Rightarrow> c
                            | None \<Rightarrow> (case p_cloud_cover product of Some c \<Rightarrow> c | None \<Rightarrow> 0))),
          date = (case p_date product of Some d \<Rightarrow> d | None \<Rightarrow> ''unknown''),
          quality_score = (case p_quality_score product of Some q \<Rightarrow> q | None \<Rightarrow> 0),
          covered_points = {}\<rparr> # extract_candidates (Suc i) rest)"

text \<open>
  Lines 481-482 store each coverage set in its candidate. \<open>zip\<close> stops at the shorter list;
  the two lists have the same length here.
\<close>

definition update_candidates :: "CoverageCandidate list \<Rightarrow> nat set list \<Rightarrow> CoverageCandidate list" where
  "update_candidates candidates coverage_sets =
     map (\<lambda>(c, s). c\<lparr>covered_points := s\<rparr>) (zip candidates coverage_sets)"

text \<open>
  The automatic grid spacing (lines 428-431): \<open>max(50, min(200, math.sqrt(aoi_area_m2) / 100))\<close>.
  \<open>math.sqrt\<close> raises ValueError on a negative argument. The real square root has no code
  equation, so this one definition is kept out of evaluation.
\<close>

definition auto_grid_spacing :: "real \<Rightarrow> error + real" where
  "auto_grid_spacing aoi_area_m2 =
    (if aoi_area_m2 < 0 then Inl (ValueError ''math domain error'')
     else Inr (max 50 (min 200 (sqrt aoi_area_m2 / 100))))"

declare auto_grid_spacing_def [code del]

text \<open>
  The first part of \<open>select_covering_products\<close> (lines 417-494): validation, grid spacing,
  candidates, sample points and coverage matrix. \<open>unary_union\<close> of a MultiPolygon is a geometry
  of the same points, so of the same \<open>bounds\<close> and \<open>covers\<close>.
\<close>

definition prepare_instance ::
  "product list \<Rightarrow> aoi_geom \<Rightarrow> real \<Rightarrow> real option
    \<Rightarrow> error + CoverageCandidate list \<times> point list \<times> nat set list" where
  "prepare_instance processed_products aoi aoi_area_m2 grid_spacing_meters =
    (if length processed_products = 0 then
       Inl (ValueError ''No products provided for coverage optimization'')
     else
       (case (case aoi of Polygon g \<Rightarrow> Some g | MultiPolygon g \<Rightarrow> Some g | NotAPolygon \<Rightarrow> None) of
          None \<Rightarrow> Inl (ValueError ''AOI geometry must be a Polygon or MultiPolygon'')
        | Some g \<Rightarrow>
            (case (case grid_spacing_meters of
                     Some s \<Rightarrow> Inr s
                   | None \<Rightarrow> auto_grid_spacing aoi_area_m2) of
               Inl e \<Rightarrow> Inl e
             | Inr s \<Rightarrow>
                 let candidates = extract_candidates 0 processed_products in
                 if length candidates = 0 then
                   Inl (ValueError ''No valid candidates with footprint geometries'')
                 else
                   (case sample_points_in_polygon g s of
                      Inl e \<Rightarrow> Inl e
                    | Inr sample_points \<Rightarrow>
                        if length sample_points = 0 then
                          Inl (ValueError ''Failed to sample points in AOI'')
                        else
                          let coverage_sets =
                                build_coverage_matrix sample_points (map footprint candidates)
                          in Inr (update_candidates candidates coverage_sets, sample_points,
                                  coverage_sets)))))"

text \<open>
  Python's \<open>if not xs\<close> on a list tests \<open>len(xs) == 0\<close>.
  \<open>select_covering_products\<close>: the instance, then the dispatch on \<open>strategy\<close> (lines 497-531).\<close>

definition select_covering_products ::
  "milp_backend \<Rightarrow> product list \<Rightarrow> aoi_geom \<Rightarrow> real \<Rightarrow> string \<Rightarrow> real \<Rightarrow> real option \<Rightarrow> real \<Rightarrow> real
    \<Rightarrow> error + CoverageResult" where
  "select_covering_products backend processed_products aoi aoi_area_m2 strategy
      min_coverage_fraction grid_spacing_meters cloud_weight quality_weight =
    (case prepare_instance processed_products aoi aoi_area_m2 grid_spacing_meters of
       Inl e \<Rightarrow> Inl e
     | Inr (candidates, sample_points, coverage_sets) \<Rightarrow>
         if strategy = ''coverage_greedy'' then
           greedy_set_cover candidates coverage_sets sample_points aoi_area_m2
             min_coverage_fraction cloud_weight quality_weight
         else if strategy = ''coverage_optimal'' then
           (case optimal_set_cover_milp backend candidates coverage_sets sample_points aoi_area_m2
                   min_coverage_fraction cloud_weight quality_weight of
              Inl e \<Rightarrow> Inl e
            | Inr (Some result) \<Rightarrow> Inr result
            | Inr None \<Rightarrow>
                greedy_set_cover candidates coverage_sets sample_points aoi_area_m2
                  min_coverage_fraction cloud_weight quality_weight)
         else Inl (ValueError ''Unknown coverage strategy''))"

section \<open>Quality scoring and strategy selection (\<open>auto_select_products\<close>, \<open>collection_core.py\<close>)\<close>

text \<open>\<open>d.get(key, default)\<close> on a key that holds a number when it is present.\<close>

definition dict_get :: "'a option \<Rightarrow> 'a \<Rightarrow> 'a" where
  "dict_get v dflt = (case v of Some x \<Rightarrow> x | None \<Rightarrow> dflt)"

text \<open>\<open>calculate_quality_score\<close> (lines 71-90); its argument \<open>product\<close> is never read.\<close>

definition calculate_quality_score ::
  "real \<Rightarrow> real \<Rightarrow> real \<Rightarrow> real \<Rightarrow> real \<Rightarrow> real \<Rightarrow> real \<Rightarrow> real" where
  "calculate_quality_score aoi_coverage_pct cloud_cover_pct date_diff_days max_date_diff_days
      aoi_weight cloud_weight recency_weight =
    (let aoi_score = aoi_coverage_pct / 100;
         cloud_score = 1 - cloud_cover_pct / 100;
         recency_score =
           (if max_date_diff_days > 0 then 1 - date_diff_days / max_date_diff_days else 1);
         score = aoi_weight * aoi_score + cloud_weight * cloud_score
                 + recency_weight * recency_score
     in max 0 (min 1 score))"

text \<open>
  The calendar arithmetic of Python's \<open>datetime\<close> (standard library): the proleptic Gregorian
  ordinal of a date and \<open>isocalendar()\<close>, which returns (ISO year, ISO week, ISO weekday).
\<close>

definition is_leap :: "int \<Rightarrow> bool" where
  "is_leap y = (y mod 4 = 0 \<and> (y mod 100 \<noteq> 0 \<or> y mod 400 = 0))"

definition days_before_year :: "int \<Rightarrow> int" where
  "days_before_year y = (y - 1) * 365 + (y - 1) div 4 - (y - 1) div 100 + (y - 1) div 400"

definition days_before_month :: "int \<Rightarrow> int \<Rightarrow> int" where
  "days_before_month y m =
     sum_list (take (nat (m - 1)) [31, 28, 31, 30, 31, 30, 31, 31, 30, 31, 30, 31])
     + (if m > 2 \<and> is_leap y then 1 else 0)"

definition ymd2ord :: "int \<Rightarrow> int \<Rightarrow> int \<Rightarrow> int" where
  "ymd2ord y m d = days_before_year y + days_before_month y m + d"

definition isoweek1monday :: "int \<Rightarrow> int" where
  "isoweek1monday y =
    (let firstday = ymd2ord y 1 1;
         firstweekday = (firstday + 6) mod 7;
         week1monday = firstday - firstweekday
     in if firstweekday > 3 then week1monday + 7 else week1monday)"

definition isocalendar :: "pydate \<Rightarrow> int \<times> int \<times> int" where
  "isocalendar d =
    (let today = ymd2ord (year d) (month d) (day d);
         week = (today - isoweek1monday (year d)) div 7;
         wday = (today - isoweek1monday (year d)) mod 7
     in if week < 0 then
          (year d - 1, (today - isoweek1monday (year d - 1)) div 7 + 1,
           (today - isoweek1monday (year d - 1)) mod 7 + 1)
        else if week \<ge> 52 \<and> today \<ge> isoweek1monday (year d + 1) then (year d + 1, 1, wday + 1)
        else (year d, week + 1, wday + 1))"

text \<open>
  \<open>sorted(xs, key=f, reverse=True)\<close> and \<open>xs.sort(key=f, reverse=True)\<close>: Python's sort is
  stable also when reversed, so this is the stable sort by the negated key.
\<close>

definition sorted_reverse :: "('a \<Rightarrow> real) \<Rightarrow> 'a list \<Rightarrow> 'a list" where
  "sorted_reverse f xs = sort_key (\<lambda>x. - f x) xs"

text \<open>\<open>xs[:n]\<close>: a negative \<open>n\<close> counts from the end.\<close>

definition slice_to :: "int \<Rightarrow> 'a list \<Rightarrow> 'a list" where
  "slice_to n xs = (if 0 \<le> n then take (nat n) xs else take (length xs - nat (- n)) xs)"

text \<open>\<open>max(xs, key=f)\<close>: the first element with the largest key; ValueError on an empty list.\<close>

fun max_by :: "('a \<Rightarrow> real) \<Rightarrow> 'a list \<Rightarrow> error + 'a" where
  "max_by f [] = Inl (ValueError ''max() arg is an empty sequence'')"
| "max_by f (x # xs) = Inr (fold (\<lambda>y b. if f y > f b then y else b) xs x)"

text \<open>
  The key \<open>f"{sensing_date.year}-W{sensing_date.isocalendar()[1]:02d}"\<close> is the calendar year
  and the ISO week number; the string is determined by, and determines, that pair.
\<close>

type_synonym week_key = "int \<times> int"

definition week_key_of :: "pydate \<Rightarrow> week_key" where
  "week_key_of d = (year d, fst (snd (isocalendar d)))"

text \<open>
  \<open>weekly_products[week_key].append(product)\<close> on a \<open>defaultdict(list)\<close>, which keeps its keys
  in the order of their first insertion.
\<close>

fun append_to_week ::
  "week_key \<Rightarrow> product \<Rightarrow> (week_key \<times> product list) list \<Rightarrow> (week_key \<times> product list) list" where
  "append_to_week k p [] = [(k, [p])]"
| "append_to_week k p ((k', ps) # rest) =
    (if k = k' then (k', ps @ [p]) # rest else (k', ps) # append_to_week k p rest)"

text \<open>The grouping loop (lines 164-173): products without a parsable date are skipped.\<close>

fun group_by_week ::
  "product list \<Rightarrow> (week_key \<times> product list) list \<Rightarrow> (week_key \<times> product list) list" where
  "group_by_week [] weekly_products = weekly_products"
| "group_by_week (product # rest) weekly_products =
    (case p_sensing_date product of
       NoDate \<Rightarrow> group_by_week rest weekly_products
     | BadDate \<Rightarrow> group_by_week rest weekly_products
     | SensingDate d \<Rightarrow>
         group_by_week rest (append_to_week (week_key_of d) product weekly_products))"

definition score_of :: "product \<Rightarrow> real" where
  "score_of p = dict_get (p_quality_score p) 0"

text \<open>The loop that picks the best product of each week (lines 176-179).\<close>

fun best_of_weeks :: "(week_key \<times> product list) list \<Rightarrow> error + product list" where
  "best_of_weeks [] = Inr []"
| "best_of_weeks ((week, products) # rest) =
    (case max_by score_of products of
       Inl e \<Rightarrow> Inl e
     | Inr b \<Rightarrow> (case best_of_weeks rest of Inl e \<Rightarrow> Inl e | Inr bs \<Rightarrow> Inr (b # bs)))"

text \<open>Lines 129-142: every product gets its \<open>quality_score\<close>.\<close>

definition score_products :: "real \<Rightarrow> real \<Rightarrow> real \<Rightarrow> product list \<Rightarrow> product list" where
  "score_products aoi_weight cloud_weight recency_weight processed_products =
    (case map (\<lambda>p. dict_get (p_date_diff_days p) 0) processed_products of
       [] \<Rightarrow> []
     | d # ds \<Rightarrow>
         let max_date_diff = fold max ds d in
         map (\<lambda>p. p\<lparr>p_quality_score :=
                       Some (calculate_quality_score
                               (dict_get (p_aoi_coverage_pct p) 0)
                               (dict_get (p_cloud_cover_float p) 0)
                               (dict_get (p_date_diff_days p) 0)
                               max_date_diff aoi_weight cloud_weight recency_weight)\<rparr>)
           processed_products)"

text \<open>The truth value of \<open>p.get("footprint_geom_proj")\<close> (line 196).\<close>

fun footprint_truthy :: "footprint_field \<Rightarrow> bool" where
  "footprint_truthy NoFootprint = False"
| "footprint_truthy (OtherObject t) = t"
| "footprint_truthy (Footprint g) = (\<not> is_empty g)"

text \<open>
  What a run of \<open>auto_select_products\<close> does besides returning: each call of
  \<open>select_covering_products\<close> and each fall-back to \<open>best_n\<close>, in order.
\<close>

datatype event = OptimizerInvoked | FallbackToBestN

text \<open>
  \<open>auto_select_products\<close> (lines 125-230). \<open>optimizer_available\<close> is the module flag
  \<open>COVERAGE_OPTIMIZER_AVAILABLE\<close>. The \<open>except Exception\<close> of the coverage branch catches every
  error of the optimiser and of the index lookup. The only raise left is \<open>max\<close> on an empty
  week.
\<close>

definition auto_select_products ::
  "bool \<Rightarrow> milp_backend \<Rightarrow> product list \<Rightarrow> string \<Rightarrow> int \<Rightarrow> real \<Rightarrow> real \<Rightarrow> real \<Rightarrow> real
    \<Rightarrow> aoi_geom option \<Rightarrow> real option \<Rightarrow> string option \<Rightarrow> real \<Rightarrow> real option \<Rightarrow> real \<Rightarrow> real
    \<Rightarrow> error + product list \<times> event list" where
  "auto_select_products optimizer_available backend processed_products strategy max_products
      quality_threshold aoi_weight cloud_weight recency_weight aoi_geom aoi_area_m2 target_crs
      min_coverage_fraction grid_spacing_meters coverage_cloud_weight coverage_quality_weight =
    (if length processed_products = 0 then Inr ([], [])
     else
       let scored = score_products aoi_weight cloud_weight recency_weight processed_products;
           sorted_products = sorted_reverse score_of scored
       in
       if strategy = ''best_n'' then Inr (slice_to max_products sorted_products, [])
       else if strategy = ''all_above_threshold'' then
         Inr (filter (\<lambda>p. score_of p \<ge> quality_threshold) sorted_products, [])
       else if strategy = ''best_per_week'' then
         (case best_of_weeks (group_by_week sorted_products []) of
            Inl e \<Rightarrow> Inl e
          | Inr sel \<Rightarrow> Inr (sorted_reverse score_of sel, []))
       else if strategy = ''coverage_greedy'' \<or> strategy = ''coverage_optimal'' then
         if \<not> optimizer_available then
           Inr (slice_to max_products sorted_products, [FallbackToBestN])
         else
           (case (aoi_geom, aoi_area_m2, target_crs) of
              (Some aoi, Some area, Some crs) \<Rightarrow>
                if \<not> list_ex (\<lambda>p. footprint_truthy (p_footprint_geom_proj p)) scored then
                  Inr (slice_to max_products sorted_products, [FallbackToBestN])
                else
                  (case select_covering_products backend scored aoi area strategy
                          min_coverage_fraction grid_spacing_meters coverage_cloud_weight
                          coverage_quality_weight of
                     Inl e \<Rightarrow>
                       Inr (slice_to max_products sorted_products,
                            [OptimizerInvoked, FallbackToBestN])
                   | Inr coverage_result \<Rightarrow>
                       if \<forall>i \<in> set (selected_indices coverage_result). i < length scored then
                         Inr (map (\<lambda>i. scored ! i) (selected_indices coverage_result),
                              [OptimizerInvoked])
                       else
                         Inr (slice_to max_products sorted_products,
                              [OptimizerInvoked, FallbackToBestN]))
            | _ \<Rightarrow> Inr (slice_to max_products sorted_products, [FallbackToBestN]))
       else Inr (slice_to max_products sorted_products, [FallbackToBestN]))"

section \<open>Configuration (\<open>AutoSelectConfig\<close>, \<open>config_schema.py\<close>)\<close>

record AutoSelectConfig =
  strategy :: string
  max_products :: int
  quality_threshold :: real
  aoi_coverage_weight :: real
  cloud_cover_weight :: real
  recency_weight :: real
  min_coverage_fraction :: real
  grid_spacing_meters :: "real option"
  solver_timeout_seconds :: int
  coverage_cloud_weight :: real
  coverage_quality_weight :: real


section \<open>Concrete instances\<close>

text \<open>An axis-parallel rectangle as a geometry: a valid, non-empty Polygon.\<close>

definition box :: "real \<Rightarrow> real \<Rightarrow> real \<Rightarrow> real \<Rightarrow> geometry" where
  "box x0 y0 x1 y1 =
     \<lparr>bounds = (x0, y0, x1, y1),
      covers = (\<lambda>p. x0 \<le> fst p \<and> fst p \<le> x1 \<and> y0 \<le> snd p \<and> snd p \<le> y1),
      is_empty = False\<rparr>"

definition cand :: "nat \<Rightarrow> CoverageCandidate" where
  "cand i = \<lparr>index = i, footprint = box 0 0 1 1, cloud_cover = 0, date = ''unknown'',
             quality_score = 1, covered_points = {}\<rparr>"


definition backend_all :: "solver_status \<Rightarrow> milp_backend" where
  "backend_all status = \<lparr>ortools_available = True, create_solver_ok = True,
     solve_status = status, solution_value = (\<lambda>j. 1)\<rparr>"

text \<open>
  A processed product as \<open>run_collection\<close> builds it: name, cloud cover, AOI coverage, date
  difference, sensing date and projected footprint; no score yet.
\<close>

definition mk_product ::
  "string \<Rightarrow> real \<Rightarrow> real \<Rightarrow> real \<Rightarrow> sensing_date_field \<Rightarrow> footprint_field \<Rightarrow> product" where
  "mk_product name aoi_pct cloud dd sensing fp =
     \<lparr>p_name = name, p_cloud_cover_float = Some cloud, p_cloud_cover = None,
      p_aoi_coverage_pct = Some aoi_pct, p_date_diff_days = Some dd, p_sensing_date = sensing,
      p_footprint_geom_proj = fp, p_date = None, p_quality_score = None\<rparr>"

section \<open>Lemmas about the greedy loop\<close>


lemma greedy_scan_total:
  "j + length cands \<le> length cs \<Longrightarrow> \<exists>b'. greedy_scan cs cw qw sel unc j cands b = Inr b'"
proof (induction cands arbitrary: j b)
  case Nil
  then show ?case by simp
next
  case (Cons c cands)
  then have "Suc j + length cands \<le> length cs" and "\<not> length cs \<le> j" by simp_all
  with Cons.IH show ?case by (simp add: Let_def)
qed

lemma greedy_iteration_total:
  assumes "length cands \<le> length cs" and "0 < tot"
  shows "\<exists>r. greedy_iteration cands cs cw qw tot st = Inr r"
proof -
  obtain b' where "greedy_scan cs cw qw (selected st) (uncovered_points st) 0 cands
      \<lparr>best_candidate_idx = None, best_gain_per_cost = 0, best_gain = 0\<rparr> = Inr b'"
    using greedy_scan_total [of 0 cands cs cw qw "selected st" "uncovered_points st"] assms(1)
    by auto
  with assms(2) show ?thesis
    by (simp add: greedy_iteration_def split: option.splits)
qed




lemma greedy_loop_invariant:
  assumes "greedy_loop cands cs cw qw tot tgt st = Inr st'"
    and "I st"
    and "\<And>s k. I s \<Longrightarrow> k < length cands \<Longrightarrow> k \<notin> set (selected s) \<Longrightarrow> k < length cs
            \<Longrightarrow> 0 < card (cs ! k \<inter> uncovered_points s)
            \<Longrightarrow> I \<lparr>uncovered_points = uncovered_points s - cs ! k,
                   selected = selected s @ [k], iteration = iteration s + 1\<rparr>"
  shows "I st'"
  using assms
proof (induction cands cs cw qw tot tgt st rule: greedy_loop.induct)
  case (1 cands cs cw qw tot tgt st)
  note step = "1.prems"(3)
  show ?case
  proof (cases "int (card (uncovered_points st)) > int tot - tgt")
    case False
    with "1.prems"(1,2) show ?thesis by (simp add: greedy_loop.simps)
  next
    case True
    show ?thesis
    proof (cases "greedy_iteration cands cs cw qw tot st")
      case (Inl e)
      with True "1.prems"(1,2) show ?thesis by (simp add: greedy_loop.simps)
    next
      case (Inr r)
      show ?thesis
      proof (cases r)
        case None
        with Inr True "1.prems"(1,2) show ?thesis by (simp add: greedy_loop.simps)
      next
        case (Some s')
        with Inr True "1.prems"(1)
        have rec: "greedy_loop cands cs cw qw tot tgt s' = Inr st'"
          by (simp add: greedy_loop.simps)
        from Inr Some obtain k where k: "k < length cands" "k \<notin> set (selected st)"
          "k < length cs" "0 < card (cs ! k \<inter> uncovered_points st)"
          and s': "s' = \<lparr>uncovered_points = uncovered_points st - cs ! k,
                      selected = selected st @ [k], iteration = iteration st + 1\<rparr>"
          using greedy_iteration_Some [of cands cs cw qw tot st s'] by auto
        have "I s'" unfolding s' using "1.prems"(2) k by (rule step)
        then show ?thesis
          using "1.IH" [OF True Inr Some rec] step by blast
      qed
    qed
  qed
qed


lemma greedy_loop_total:
  assumes "length cands \<le> length cs" and "0 < tot"
  shows "\<exists>st'. greedy_loop cands cs cw qw tot tgt st = Inr st'"
  using assms
proof (induction cands cs cw qw tot tgt st rule: greedy_loop.induct)
  case (1 cands cs cw qw tot tgt st)
  show ?case
  proof (cases "int (card (uncovered_points st)) > int tot - tgt")
    case False
    then show ?thesis by (simp add: greedy_loop.simps)
  next
    case True
    obtain r where r: "greedy_iteration cands cs cw qw tot st = Inr r"
      using greedy_iteration_total [OF "1.prems"] by blast
    show ?thesis
    proof (cases r)
      case None
      with r True show ?thesis by (simp add: greedy_loop.simps)
    next
      case (Some s')
      from "1.IH" [OF True r Some "1.prems"] r Some True show ?thesis
        by (simp add: greedy_loop.simps)
    qed
  qed
qed

lemma card_diff_less:
  assumes "finite A" and "0 < card (B \<inter> A)"
  shows "card (A - B) < card A"
proof -
  from assms(2) have "B \<inter> A \<noteq> {}" by auto
  then have "A - B \<subset> A" by auto
  with assms(1) show ?thesis by (rule psubset_card_mono)
qed

definition greedy_inv :: "nat \<Rightarrow> nat \<Rightarrow> greedy_state \<Rightarrow> bool" where
  "greedy_inv n m s \<longleftrightarrow>
     finite (uncovered_points s) \<and> card (uncovered_points s) + iteration s \<le> m
     \<and> iteration s = length (selected s) \<and> distinct (selected s)
     \<and> set (selected s) \<subseteq> {..<n}"

lemma greedy_inv_init:
  "greedy_inv n m \<lparr>uncovered_points = {0..<m}, selected = [], iteration = 0\<rparr>"
  by (simp add: greedy_inv_def)

lemma greedy_inv_step:
  assumes "greedy_inv n m s" and "k < n" and "k \<notin> set (selected s)"
    and "0 < card (cs ! k \<inter> uncovered_points s)"
  shows "greedy_inv n m \<lparr>uncovered_points = uncovered_points s - cs ! k,
           selected = selected s @ [k], iteration = iteration s + 1\<rparr>"
proof -
  have fin: "finite (uncovered_points s)" using assms(1) by (simp add: greedy_inv_def)
  have "card (uncovered_points s - cs ! k) < card (uncovered_points s)"
    using fin assms(4) by (rule card_diff_less)
  with assms show ?thesis by (auto simp: greedy_inv_def)
qed

lemma greedy_loop_inv:
  assumes "greedy_loop cands cs cw qw m tgt
             \<lparr>uncovered_points = {0..<m}, selected = [], iteration = 0\<rparr> = Inr fin"
  shows "greedy_inv (length cands) m fin"
  using assms greedy_inv_init
proof (rule greedy_loop_invariant)
  fix s k
  assume "greedy_inv (length cands) m s" "k < length cands" "k \<notin> set (selected s)"
    "0 < card (cs ! k \<inter> uncovered_points s)"
  then show "greedy_inv (length cands) m \<lparr>uncovered_points = uncovered_points s - cs ! k,
           selected = selected s @ [k], iteration = iteration s + 1\<rparr>"
    by (rule greedy_inv_step)
qed


lemma greedy_loop_total0:
  assumes "length cands \<le> length cs"
  shows "\<exists>fin. greedy_loop cands cs cw qw m (py_int (real m * f))
             \<lparr>uncovered_points = {0..<m}, selected = [], iteration = 0\<rparr> = Inr fin"
proof (cases "m = 0")
  case True
  then show ?thesis by (simp add: greedy_loop.simps py_int_def)
next
  case False
  then show ?thesis using greedy_loop_total [OF assms, of m] by simp
qed






section \<open>Lemmas about the dispatcher\<close>

lemma greedy_set_cover_total:
  assumes "length cands \<le> length cs" and "pts \<noteq> []"
  shows "\<exists>r. greedy_set_cover cands cs pts area f cw qw = Inr r"
proof -
  obtain fin where "greedy_loop cands cs cw qw (length pts) (py_int (real (length pts) * f))
             \<lparr>uncovered_points = {0..<length pts}, selected = [], iteration = 0\<rparr> = Inr fin"
    using greedy_loop_total0 [OF assms(1), of cw qw "length pts" f] by auto
  with assms(2) show ?thesis by (simp add: greedy_set_cover_def Let_def)
qed

lemma extract_candidates_index:
  "sorted_wrt (<) (map index (extract_candidates i ps))
   \<and> (\<forall>c \<in> set (extract_candidates i ps). i \<le> index c \<and> index c < i + length ps
        \<and> (\<exists>fp. p_footprint_geom_proj (ps ! (index c - i)) = Footprint fp))"
proof (induction ps arbitrary: i)
  case Nil
  then show ?case by simp
next
  case (Cons p ps)
  have ih: "sorted_wrt (<) (map index (extract_candidates (Suc i) ps))"
    and ih2: "\<And>c. c \<in> set (extract_candidates (Suc i) ps) \<Longrightarrow> Suc i \<le> index c
        \<and> index c < Suc i + length ps
        \<and> (\<exists>fp. p_footprint_geom_proj (ps ! (index c - Suc i)) = Footprint fp)"
    using Cons.IH [of "Suc i"] by blast+
  have step: "i \<le> index c \<and> index c < i + length (p # ps)
        \<and> (\<exists>fp. p_footprint_geom_proj ((p # ps) ! (index c - i)) = Footprint fp)"
    if "c \<in> set (extract_candidates (Suc i) ps)" for c
  proof -
    from ih2 [OF that] obtain fp where a: "Suc i \<le> index c" "index c < Suc i + length ps"
      and fp: "p_footprint_geom_proj (ps ! (index c - Suc i)) = Footprint fp" by blast
    from a have "index c - i = Suc (index c - Suc i)" by simp
    with a fp show ?thesis by simp
  qed
  show ?case
  proof (cases "p_footprint_geom_proj p")
    case NoFootprint
    with ih step show ?thesis by simp
  next
    case (OtherObject t)
    with ih step show ?thesis by simp
  next
    case (Footprint fp)
    have "\<forall>c \<in> set (extract_candidates (Suc i) ps). i < index c"
      using ih2 by force
    with Footprint ih step show ?thesis by auto
  qed
qed

lemma extract_candidates_length:
  "length (extract_candidates i ps) \<le> length ps"
proof (induction ps arbitrary: i)
  case Nil
  then show ?case by simp
next
  case (Cons p ps)
  from Cons [of "Suc i"] show ?case
    by (cases "p_footprint_geom_proj p") simp_all
qed

lemma extract_candidates_all:
  "\<forall>p \<in> set ps. \<exists>fp. p_footprint_geom_proj p = Footprint fp
     \<Longrightarrow> length (extract_candidates i ps) = length ps"
  by (induction ps arbitrary: i) auto

lemma update_candidates_index:
  "length cs = length cands \<Longrightarrow> map index (update_candidates cands cs) = map index cands"
  by (induction cands cs rule: list_induct2') (auto simp: update_candidates_def)

lemma prepare_instance_Inr:
  assumes "prepare_instance products aoi area spacing = Inr (cands, pts, cs)"
  shows "pts \<noteq> []" and "length cs = length cands"
    and "map index cands = map index (extract_candidates 0 products)"
proof -
  from assms have pts: "pts \<noteq> []"
    and cs: "cs = build_coverage_matrix pts (map footprint (extract_candidates 0 products))"
    and cands: "cands = update_candidates (extract_candidates 0 products) cs"
    by (auto simp: prepare_instance_def Let_def
             split: if_splits option.splits sum.splits aoi_geom.splits)
  from pts show "pts \<noteq> []" .
  have len: "length cs = length (extract_candidates 0 products)"
    using cs by (simp add: build_coverage_matrix_def)
  then show "length cs = length cands"
    using cands by (simp add: update_candidates_def)
  from len show "map index cands = map index (extract_candidates 0 products)"
    unfolding cands by (rule update_candidates_index)
qed

lemma milp_no_key_error:
  "length cs \<le> n \<Longrightarrow> \<not> constraint_key_error n cs m"
  by (simp add: constraint_key_error_def)

lemma milp_failure_None:
  assumes "solve_status be \<noteq> OPTIMAL" and "solve_status be \<noteq> FEASIBLE"
    and "length cs \<le> length cands"
  shows "optimal_set_cover_milp be cands cs pts area f cw qw = Inr None"
  using assms
  by (cases "solve_status be")
     (simp_all add: optimal_set_cover_milp_def Let_def milp_no_key_error)

lemma strictly_increasing_inj:
  fixes f :: "'a \<Rightarrow> nat"
  assumes "sorted_wrt (<) (map f xs)"
  shows "inj_on (\<lambda>i. f (xs ! i)) {..<length xs}"
proof (rule inj_onI)
  fix i j
  assume i: "i \<in> {..<length xs}" and j: "j \<in> {..<length xs}"
    and eq: "f (xs ! i) = f (xs ! j)"
  have less: "f (xs ! a) < f (xs ! b)" if "a < b" "b < length xs" for a b
    using assms that sorted_wrt_iff_nth_less [of "(<)" "map f xs"] by simp
  show "i = j"
  proof (rule ccontr)
    assume "i \<noteq> j"
    then consider "i < j" | "j < i" by linarith
    then show False
    proof cases
      case 1
      with j have "f (xs ! i) < f (xs ! j)" by (intro less) simp_all
      with eq show False by simp
    next
      case 2
      with i have "f (xs ! j) < f (xs ! i)" by (intro less) simp_all
      with eq show False by simp
    qed
  qed
qed

lemma greedy_selected_indices:
  assumes res: "greedy_set_cover cands cs pts area f cw qw = Inr r"
    and inc: "sorted_wrt (<) (map index cands)"
  shows "distinct (selected_indices r)" and "num_selected r = length (selected_indices r)"
    and "set (selected_indices r) \<subseteq> set (map index cands)"
    and "num_candidates r = length cands"
proof -
  from res obtain fin where loop: "greedy_loop cands cs cw qw (length pts)
        (py_int (real (length pts) * f))
        \<lparr>uncovered_points = {0..<length pts}, selected = [], iteration = 0\<rparr> = Inr fin"
    and sel: "selected_indices r = map (\<lambda>i. index (cands ! i)) (selected fin)"
    and num: "num_selected r = length (selected fin)"
    and nc: "num_candidates r = length cands"
    by (auto simp: greedy_set_cover_def Let_def split: sum.splits if_splits)
  from loop have inv: "greedy_inv (length cands) (length pts) fin" by (rule greedy_loop_inv)
  then have d: "distinct (selected fin)" and sub: "set (selected fin) \<subseteq> {..<length cands}"
    by (simp_all add: greedy_inv_def)
  have "inj_on (\<lambda>i. index (cands ! i)) {..<length cands}"
    using inc by (rule strictly_increasing_inj)
  then have "inj_on (\<lambda>i. index (cands ! i)) (set (selected fin))"
    using sub by (rule inj_on_subset)
  with d show "distinct (selected_indices r)" by (simp add: sel distinct_map)
  from num sel show "num_selected r = length (selected_indices r)" by simp
  from sub show "set (selected_indices r) \<subseteq> set (map index cands)"
    by (auto simp: sel)
  from nc show "num_candidates r = length cands" .
qed

lemma milp_extract_increasing:
  "milp_extract x cs j cands acc = Inr res \<Longrightarrow> sorted_wrt (<) (fst acc @ map index cands)
     \<Longrightarrow> sorted_wrt (<) (fst res) \<and> set (fst res) \<subseteq> set (fst acc) \<union> set (map index cands)"
proof (induction cands arbitrary: j acc)
  case Nil
  then show ?case by simp
next
  case (Cons c cands)
  show ?case
  proof (cases "x j > 1 / 2")
    case True
    with Cons.prems(1) have rec: "milp_extract x cs (Suc j) cands
        (fst acc @ [index c], snd acc \<union> cs ! j) = Inr res"
      by (simp split: if_splits)
    have "sorted_wrt (<) (fst (fst acc @ [index c], snd acc \<union> cs ! j) @ map index cands)"
      using Cons.prems(2) by simp
    from Cons.IH [OF rec this] show ?thesis by auto
  next
    case False
    with Cons.prems(1) have rec: "milp_extract x cs (Suc j) cands acc = Inr res" by simp
    have "sorted_wrt (<) (fst acc @ map index cands)"
      using Cons.prems(2) by (auto simp: sorted_wrt_append)
    from Cons.IH [OF rec this] show ?thesis by auto
  qed
qed

lemma milp_selected_indices:
  assumes res: "optimal_set_cover_milp be cands cs pts area f cw qw = Inr (Some r)"
    and inc: "sorted_wrt (<) (map index cands)"
  shows "distinct (selected_indices r)" and "num_selected r = length (selected_indices r)"
    and "set (selected_indices r) \<subseteq> set (map index cands)"
    and "num_candidates r = length cands"
proof -
  from res obtain cov where ex: "milp_extract (solution_value be) cs 0 cands ([], {})
        = Inr (selected_indices r, cov)"
    and num: "num_selected r = length (selected_indices r)"
    and nc: "num_candidates r = length cands"
    by (auto simp: optimal_set_cover_milp_def Let_def
             split: if_splits option.splits sum.splits prod.splits)
  from milp_extract_increasing [OF ex] inc
  have "sorted_wrt (<) (selected_indices r)"
    and sub: "set (selected_indices r) \<subseteq> set (map index cands)" by simp_all
  then show "distinct (selected_indices r)" by (simp add: strict_sorted_iff)
  from num show "num_selected r = length (selected_indices r)" .
  from sub show "set (selected_indices r) \<subseteq> set (map index cands)" .
  from nc show "num_candidates r = length cands" .
qed

lemma box_simps:
  "bounds (box a b c d) = (a, b, c, d)"
  "covers (box a b c d) p = (a \<le> fst p \<and> fst p \<le> c \<and> b \<le> snd p \<and> snd p \<le> d)"
  by (simp_all add: box_def)

section \<open>Lemmas about the grid sampler\<close>



section \<open>Lemmas about scoring and sorting\<close>



section \<open>Properties\<close>


text \<open>
  Claim C3 (coverage-area identity). Every result of \<open>greedy_set_cover\<close> and every result of
  \<open>optimal_set_cover_milp\<close> satisfies
  \<open>uncovered_area_m2 = (1 - coverage_fraction) * aoi_area_m2\<close>. With floats read as exact
  reals the two sides are equal, which is inside every rounding tolerance.
\<close>

theorem coverage_area_identity:
  "(greedy_set_cover cands cs pts area f cw qw = Inr r
      \<longrightarrow> uncovered_area_m2 r = (1 - coverage_fraction r) * area)
   \<and> (optimal_set_cover_milp be cands cs pts area f cw qw = Inr (Some r')
      \<longrightarrow> uncovered_area_m2 r' = (1 - coverage_fraction r') * area)"
  by (auto simp: greedy_set_cover_def optimal_set_cover_milp_def Let_def
           split: sum.splits if_splits option.splits solver_status.splits prod.splits)

theorem coverage_area_identity_witness:
  "greedy_set_cover [cand 0, cand 1, cand 2] [{0}, {1}, {2}] [(0, 0), (0, 1), (1, 0)] 100 (1 / 2)
      (3 / 10) (7 / 10)
     = Inr \<lparr>selected_indices = [0], coverage_fraction = 1 / 3, uncovered_area_m2 = 200 / 3,
            num_candidates = 3, num_selected = 1, solver_type = ''greedy'',
            optimal = Some False\<rparr>
   \<and> optimal_set_cover_milp (backend_all OPTIMAL) [cand 0, cand 1] [{0}, {1}]
        [(0, 0), (0, 1), (1, 0)] 100 (1 / 2) (3 / 10) (7 / 10)
     = Inr (Some \<lparr>selected_indices = [0, 1], coverage_fraction = 2 / 3,
                  uncovered_area_m2 = 100 / 3, num_candidates = 2, num_selected = 2,
                  solver_type = ''milp'', optimal = Some True\<rparr>)
   \<and> (200 / 3 :: real) = (1 - 1 / 3) * 100 \<and> (100 / 3 :: real) = (1 - 2 / 3) * 100"
proof -
  let ?r = "\<lparr>selected_indices = [0], coverage_fraction = 1 / 3, uncovered_area_m2 = 200 / 3,
            num_candidates = 3, num_selected = 1, solver_type = ''greedy'',
            optimal = Some False\<rparr>"
  let ?r' = "\<lparr>selected_indices = [0, 1], coverage_fraction = 2 / 3,
                  uncovered_area_m2 = 100 / 3, num_candidates = 2, num_selected = 2,
                  solver_type = ''milp'', optimal = Some True\<rparr>"
  have g: "greedy_set_cover [cand 0, cand 1, cand 2] [{0}, {1}, {2}] [(0, 0), (0, 1), (1, 0)] 100
             (1 / 2) (3 / 10) (7 / 10) = Inr ?r"
    by code_simp
  have m: "optimal_set_cover_milp (backend_all OPTIMAL) [cand 0, cand 1] [{0}, {1}]
             [(0, 0), (0, 1), (1, 0)] 100 (1 / 2) (3 / 10) (7 / 10) = Inr (Some ?r')"
    by (simp add: optimal_set_cover_milp_def backend_all_def constraint_key_error_def cand_def)
  from coverage_area_identity [of "[cand 0, cand 1, cand 2]" "[{0}, {1}, {2}]"
         "[(0, 0), (0, 1), (1, 0)]" 100 "1 / 2" "3 / 10" "7 / 10" ?r] g
  have 1: "(200 / 3 :: real) = (1 - 1 / 3) * 100" by simp
  from coverage_area_identity [of "[cand 0, cand 1]" "[{0}, {1}]" "[(0, 0), (0, 1), (1, 0)]" 100
         "1 / 2" "3 / 10" "7 / 10" _ "backend_all OPTIMAL" ?r'] m
  have 2: "(100 / 3 :: real) = (1 - 2 / 3) * 100" by simp
  from g m 1 2 show ?thesis by blast
qed



text \<open>
  Claim C10 (empty input). Whatever the strategy and the other arguments,
  \<open>auto_select_products\<close> on an empty product list returns the empty list: it does not raise,
  it does not call the coverage optimiser and it takes no fall-back path (no event is
  recorded).
\<close>

theorem empty_input_returns_empty:
  "auto_select_products avail be [] strat maxp thr aw cw rw aoi area crs f spacing ccw cqw
     = Inr ([], [])"
  by (simp add: auto_select_products_def)


theorem empty_input_returns_empty_witness:
  "auto_select_products True (backend_all OPTIMAL) [] ''coverage_optimal'' 5 (7 / 10) (4 / 10)
     (4 / 10) (2 / 10) (Some (Polygon (box 0 0 10 10))) (Some 100) (Some ''EPSG:32634'')
     (99 / 100) None (3 / 10) (7 / 10) = Inr ([], [])
   \<and> auto_select_products False (backend_all INFEASIBLE) [] ''best_per_week'' 5 (7 / 10) (4 / 10)
     (4 / 10) (2 / 10) None None None (99 / 100) None (3 / 10) (7 / 10) = Inr ([], [])"
  using empty_input_returns_empty [of True "backend_all OPTIMAL" "''coverage_optimal''" 5 "7 / 10"
      "4 / 10" "4 / 10" "2 / 10" "Some (Polygon (box 0 0 10 10))" "Some 100" "Some ''EPSG:32634''"
      "99 / 100" None "3 / 10" "7 / 10"]
    empty_input_returns_empty [of False "backend_all INFEASIBLE" "''best_per_week''" 5 "7 / 10"
      "4 / 10" "4 / 10" "2 / 10" None None None "99 / 100" None "3 / 10" "7 / 10"]
  by simp






text \<open>
  Claim C2 (selection validity), as the code has it. In every result that
  \<open>select_covering_products\<close> returns, from the greedy solver or from the MILP driver, the
  entries of \<open>selected_indices\<close> are distinct, \<open>num_selected\<close> is their number, and every entry
  is a position of the product list, that is, lies in \<open>[0, len(processed_products))\<close>. An
  entry is the position of its product in that list, while \<open>num_candidates\<close> counts only the
  products with a usable footprint; when every product has one, every entry lies in
  \<open>[0, num_candidates)\<close>.
\<close>

theorem selection_validity:
  assumes "select_covering_products be products aoi area strat f spacing cw qw = Inr r"
  shows "distinct (selected_indices r) \<and> num_selected r = length (selected_indices r)
     \<and> (\<forall>i \<in> set (selected_indices r). i < length products)
     \<and> ((\<forall>p \<in> set products. \<exists>fp. p_footprint_geom_proj p = Footprint fp)
          \<longrightarrow> (\<forall>i \<in> set (selected_indices r). i < num_candidates r))"
proof -
  from assms obtain cands pts cs where
    prep: "prepare_instance products aoi area spacing = Inr (cands, pts, cs)"
    by (auto simp: select_covering_products_def split: sum.splits)
  note facts = prepare_instance_Inr [OF prep]
  let ?ex = "extract_candidates 0 products"
  have inc: "sorted_wrt (<) (map index cands)"
    using extract_candidates_index [of 0 products] facts(3) by simp
  have range: "\<forall>i \<in> set (map index cands). i < length products"
    using extract_candidates_index [of 0 products] facts(3) by auto
  have len: "length cands = length ?ex"
    using facts(3) by (metis length_map)
  from assms prep have
    "greedy_set_cover cands cs pts area f cw qw = Inr r
     \<or> optimal_set_cover_milp be cands cs pts area f cw qw = Inr (Some r)"
    by (auto simp: select_covering_products_def split: if_splits sum.splits option.splits)
  then have r: "distinct (selected_indices r) \<and> num_selected r = length (selected_indices r)
    \<and> set (selected_indices r) \<subseteq> set (map index cands) \<and> num_candidates r = length cands"
  proof
    assume g: "greedy_set_cover cands cs pts area f cw qw = Inr r"
    show ?thesis using greedy_selected_indices [OF g inc] by simp
  next
    assume m: "optimal_set_cover_milp be cands cs pts area f cw qw = Inr (Some r)"
    show ?thesis using milp_selected_indices [OF m inc] by simp
  qed
  have all: "\<forall>i \<in> set (selected_indices r). i < num_candidates r"
    if "\<forall>p \<in> set products. \<exists>fp. p_footprint_geom_proj p = Footprint fp"
  proof -
    from that have "length ?ex = length products" by (rule extract_candidates_all)
    with len r have "num_candidates r = length products" by simp
    with range r show ?thesis by auto
  qed
  from r range all show ?thesis by blast
qed

text \<open>
  The claim as written bounds the entries by \<open>num_candidates\<close>. With two products of which the
  first has no footprint, the only candidate has index 1 and \<open>num_candidates = 1\<close>.
\<close>

theorem selection_index_counterexample:
  "select_covering_products (backend_all OPTIMAL)
     [mk_product ''A'' 100 10 0 NoDate NoFootprint,
      mk_product ''B'' 100 10 0 NoDate (Footprint (box 0 0 10 10))]
     (Polygon (box 0 0 10 10)) 100 ''coverage_greedy'' (99 / 100) (Some 5) (3 / 10) (7 / 10)
   = Inr \<lparr>selected_indices = [1], coverage_fraction = 1, uncovered_area_m2 = 0,
          num_candidates = 1, num_selected = 1, solver_type = ''greedy'',
          optimal = Some False\<rparr>
   \<and> \<not> ((1 :: nat) < 1)"
  by code_simp

theorem selection_validity_witness:
  "select_covering_products (backend_all OPTIMAL)
     [mk_product ''A'' 100 10 0 NoDate (Footprint (box 0 0 6 10)),
      mk_product ''C'' 100 10 0 NoDate (OtherObject True),
      mk_product ''B'' 100 10 0 NoDate (Footprint (box 4 0 10 10))]
     (Polygon (box 0 0 10 10)) 100 ''coverage_optimal'' (99 / 100) (Some 5) (3 / 10) (7 / 10)
   = Inr \<lparr>selected_indices = [0, 2], coverage_fraction = 1, uncovered_area_m2 = 0,
          num_candidates = 2, num_selected = 2, solver_type = ''milp'',
          optimal = Some True\<rparr>
   \<and> distinct [0, 2 :: nat] \<and> (2 :: nat) = length [0, 2 :: nat]
   \<and> (0 :: nat) < length [mk_product ''A'' 100 10 0 NoDate (Footprint (box 0 0 6 10)),
                          mk_product ''C'' 100 10 0 NoDate (OtherObject True),
                          mk_product ''B'' 100 10 0 NoDate (Footprint (box 4 0 10 10))]
   \<and> (2 :: nat) < length [mk_product ''A'' 100 10 0 NoDate (Footprint (box 0 0 6 10)),
                          mk_product ''C'' 100 10 0 NoDate (OtherObject True),
                          mk_product ''B'' 100 10 0 NoDate (Footprint (box 4 0 10 10))]"
proof -
  let ?r = "\<lparr>selected_indices = [0, 2], coverage_fraction = 1, uncovered_area_m2 = 0,
          num_candidates = 2, num_selected = 2, solver_type = ''milp'',
          optimal = Some True\<rparr>"
  have ev: "select_covering_products (backend_all OPTIMAL)
     [mk_product ''A'' 100 10 0 NoDate (Footprint (box 0 0 6 10)),
      mk_product ''C'' 100 10 0 NoDate (OtherObject True),
      mk_product ''B'' 100 10 0 NoDate (Footprint (box 4 0 10 10))]
     (Polygon (box 0 0 10 10)) 100 ''coverage_optimal'' (99 / 100) (Some 5) (3 / 10) (7 / 10)
   = Inr ?r"
    by code_simp
  from selection_validity [OF ev] ev show ?thesis by simp
qed

text \<open>
  Claim C5 (fall-back when the MILP fails). When the solve ends with a status other than
  OPTIMAL or FEASIBLE, \<open>optimal_set_cover_milp\<close> returns \<open>None\<close> (on an instance with one
  coverage set per candidate), and \<open>select_covering_products\<close> with the strategy
  \<open>coverage_optimal\<close> returns what the greedy solver returns on the same instance, which is a
  result and not an error.
\<close>

theorem milp_failure_falls_back_to_greedy:
  assumes "solve_status be \<noteq> OPTIMAL" and "solve_status be \<noteq> FEASIBLE"
  shows "(length cs = length cands
           \<longrightarrow> optimal_set_cover_milp be cands cs pts area f cw qw = Inr None)
    \<and> (prepare_instance products aoi area spacing = Inr (cands', pts', cs')
         \<longrightarrow> select_covering_products be products aoi area ''coverage_optimal'' f spacing cw qw
               = greedy_set_cover cands' cs' pts' area f cw qw
           \<and> (\<exists>r. greedy_set_cover cands' cs' pts' area f cw qw = Inr r))"
proof (intro conjI impI)
  assume "length cs = length cands"
  then show "optimal_set_cover_milp be cands cs pts area f cw qw = Inr None"
    using assms by (simp add: milp_failure_None)
next
  assume prep: "prepare_instance products aoi area spacing = Inr (cands', pts', cs')"
  note facts = prepare_instance_Inr [OF prep]
  have "optimal_set_cover_milp be cands' cs' pts' area f cw qw = Inr None"
    using assms facts(2) by (simp add: milp_failure_None)
  with prep show "select_covering_products be products aoi area ''coverage_optimal'' f spacing
           cw qw = greedy_set_cover cands' cs' pts' area f cw qw"
    by (simp add: select_covering_products_def)
  show "\<exists>r. greedy_set_cover cands' cs' pts' area f cw qw = Inr r"
    using facts(1,2) by (intro greedy_set_cover_total) simp_all
qed

theorem milp_failure_falls_back_to_greedy_witness:
  "solve_status (backend_all INFEASIBLE) \<noteq> OPTIMAL
   \<and> solve_status (backend_all INFEASIBLE) \<noteq> FEASIBLE
   \<and> prepare_instance [mk_product ''B'' 100 10 0 NoDate (Footprint (box 0 0 10 10))]
        (Polygon (box 0 0 10 10)) 100 (Some 5)
      = Inr ([\<lparr>index = 0, footprint = box 0 0 10 10, cloud_cover = 10, date = ''unknown'',
               quality_score = 0, covered_points = {0, 1, 2, 3}\<rparr>],
             [(0, 0), (0, 5), (5, 0), (5, 5)], [{0, 1, 2, 3}])
   \<and> optimal_set_cover_milp (backend_all INFEASIBLE)
        [\<lparr>index = 0, footprint = box 0 0 10 10, cloud_cover = 10, date = ''unknown'',
               quality_score = 0, covered_points = {0, 1, 2, 3}\<rparr>] [{0, 1, 2, 3}]
        [(0, 0), (0, 5), (5, 0), (5, 5)] 100 (99 / 100) (3 / 10) (7 / 10) = Inr None
   \<and> select_covering_products (backend_all INFEASIBLE)
        [mk_product ''B'' 100 10 0 NoDate (Footprint (box 0 0 10 10))]
        (Polygon (box 0 0 10 10)) 100 ''coverage_optimal'' (99 / 100) (Some 5) (3 / 10) (7 / 10)
      = Inr \<lparr>selected_indices = [0], coverage_fraction = 1, uncovered_area_m2 = 0,
             num_candidates = 1, num_selected = 1, solver_type = ''greedy'',
             optimal = Some False\<rparr>"
proof -
  let ?c = "[\<lparr>index = 0, footprint = box 0 0 10 10, cloud_cover = 10, date = ''unknown'',
               quality_score = 0, covered_points = {0, 1, 2, 3}\<rparr>]"
  let ?p = "[(0, 0), (0, 5), (5, 0), (5 :: real, 5 :: real)]"
  let ?s = "[{0, 1, 2, 3 :: nat}]"
  let ?ps = "[mk_product ''B'' 100 10 0 NoDate (Footprint (box 0 0 10 10))]"
  have h1: "solve_status (backend_all INFEASIBLE) \<noteq> OPTIMAL"
    and h2: "solve_status (backend_all INFEASIBLE) \<noteq> FEASIBLE"
    by (simp_all add: backend_all_def)
  have sp: "sample_points_in_polygon (box 0 0 10 10) 5 = Inr ?p"
    by code_simp
  have prep: "prepare_instance ?ps (Polygon (box 0 0 10 10)) 100 (Some 5) = Inr (?c, ?p, ?s)"
    by (simp add: prepare_instance_def mk_product_def sp build_coverage_matrix_def
          update_candidates_def Let_def box_simps eval_nat_numeral)
  have g: "greedy_set_cover ?c ?s ?p 100 (99 / 100) (3 / 10) (7 / 10)
      = Inr \<lparr>selected_indices = [0], coverage_fraction = 1, uncovered_area_m2 = 0,
             num_candidates = 1, num_selected = 1, solver_type = ''greedy'',
             optimal = Some False\<rparr>"
    by code_simp
  have len: "length ?s = length ?c" by simp
  note inst = milp_failure_falls_back_to_greedy [OF h1 h2, where products = ?ps
        and aoi = "Polygon (box 0 0 10 10)" and area = 100 and spacing = "Some 5"
        and cands' = ?c and pts' = ?p and cs' = ?s and f = "99 / 100" and cw = "3 / 10"
        and qw = "7 / 10" and cands = ?c and cs = ?s and pts = ?p]
  from inst len have m: "optimal_set_cover_milp (backend_all INFEASIBLE) ?c ?s ?p 100 (99 / 100)
      (3 / 10) (7 / 10) = Inr None"
    by blast
  from inst prep have "select_covering_products (backend_all INFEASIBLE) ?ps
        (Polygon (box 0 0 10 10)) 100 ''coverage_optimal'' (99 / 100) (Some 5) (3 / 10) (7 / 10)
      = greedy_set_cover ?c ?s ?p 100 (99 / 100) (3 / 10) (7 / 10)"
    by blast
  with g have "select_covering_products (backend_all INFEASIBLE) ?ps
        (Polygon (box 0 0 10 10)) 100 ''coverage_optimal'' (99 / 100) (Some 5) (3 / 10) (7 / 10)
      = Inr \<lparr>selected_indices = [0], coverage_fraction = 1, uncovered_area_m2 = 0,
             num_candidates = 1, num_selected = 1, solver_type = ''greedy'',
             optimal = Some False\<rparr>"
    by simp
  with h1 h2 prep m show ?thesis by blast
qed







text \<open>
  Claim C7 (strategy \<open>best_per_week\<close>): products are grouped by the ISO year-week pair of
  their sensing date and one product per group is returned. The code builds the key from
  the calendar year and the ISO week number. The sensing dates 2024-01-01 (ISO week 1 of
  2024) and 2024-12-30 (ISO week 1 of 2025) lie in different ISO weeks but get the same key,
  so only one of the two products is returned.
\<close>

theorem best_per_week_calendar_year_key:
  "map_sum id (map p_name \<circ> fst)
     (auto_select_products True (backend_all OPTIMAL)
        [mk_product ''P1'' 100 0 0 (SensingDate \<lparr>year = 2024, month = 1, day = 1\<rparr>) NoFootprint,
         mk_product ''P2'' 90 0 0 (SensingDate \<lparr>year = 2024, month = 12, day = 30\<rparr>) NoFootprint]
        ''best_per_week'' 5 (7 / 10) (4 / 10) (4 / 10) (2 / 10) None None None (99 / 100) None
        (3 / 10) (7 / 10)) = Inr [''P1'']
   \<and> isocalendar \<lparr>year = 2024, month = 1, day = 1\<rparr> = (2024, 1, 1)
   \<and> isocalendar \<lparr>year = 2024, month = 12, day = 30\<rparr> = (2025, 1, 1)
   \<and> week_key_of \<lparr>year = 2024, month = 1, day = 1\<rparr> = (2024, 1)
   \<and> week_key_of \<lparr>year = 2024, month = 12, day = 30\<rparr> = (2024, 1)"
  by code_simp

theorem best_per_week_calendar_year_key_witness:
  "length (projr (map_sum id (map p_name \<circ> fst)
     (auto_select_products True (backend_all OPTIMAL)
        [mk_product ''P1'' 100 0 0 (SensingDate \<lparr>year = 2024, month = 1, day = 1\<rparr>) NoFootprint,
         mk_product ''P2'' 90 0 0 (SensingDate \<lparr>year = 2024, month = 12, day = 30\<rparr>) NoFootprint]
        ''best_per_week'' 5 (7 / 10) (4 / 10) (4 / 10) (2 / 10) None None None (99 / 100) None
        (3 / 10) (7 / 10)))) = 1
   \<and> fst (isocalendar \<lparr>year = 2024, month = 1, day = 1\<rparr>)
       \<noteq> fst (isocalendar \<lparr>year = 2024, month = 12, day = 30\<rparr>)"
  using best_per_week_calendar_year_key by simp

end
